theory Spec2Isabelle
  imports Main "HOL-Library.Multiset"
begin

section \<open>Input records\<close>

text \<open>
  A row of the song catalog, with the columns of \<open>song_data_schema\<close> in
  \<open>process_song_data\<close>. Every column is nullable (\<open>None\<close> is SQL null). The code only
  copies the floating-point columns, so their values are an opaque type \<open>'f\<close>.
\<close>

record 'f SongRecord =
  artist_id :: "string option"
  artist_latitude :: "'f option"
  artist_location :: "string option"
  artist_longitude :: "'f option"
  artist_name :: "string option"
  duration :: "'f option"
  num_songs :: "int option"
  song_id :: "string option"
  title :: "string option"
  year :: "int option"

text \<open>A row of the session log: the columns that \<open>process_log_data\<close> reads.\<close>

record LogEvent =
  ts :: "int option"
  page :: "string option"
  userId :: "string option"
  firstName :: "string option"
  lastName :: "string option"
  gender :: "string option"
  level :: "string option"
  song :: "string option"
  artist :: "string option"
  sessionId :: "int option"
  location :: "string option"
  userAgent :: "string option"

text \<open>
  What \<open>spark.read.json\<close> returns for the two globs under \<open>input_data\<close>: the song
  files and the log files, as rows.
\<close>

record 'f sources =
  song_json :: "'f SongRecord list"
  log_json :: "LogEvent list"

section \<open>Rows of the output tables\<close>

record 'f songs_row =
  songs_song_id :: "string option"
  songs_title :: "string option"
  songs_artist_id :: "string option"
  songs_duration :: "'f option"
  songs_year :: "int option"

record 'f artists_row =
  artists_artist_id :: "string option"
  artists_name :: "string option"
  artists_location :: "string option"
  artists_latitude :: "'f option"
  artists_longitude :: "'f option"

record users_row =
  users_user_id :: "string option"
  users_first_name :: "string option"
  users_last_name :: "string option"
  users_gender :: "string option"
  users_level :: "string option"

section \<open>DataFrame operations\<close>

text \<open>
  \<open>dropDuplicates\<close> on one column keeps one whole row for each value of the column
  (null is a value like any other). The row kept is the first one of the frame with
  that value. The code passes the name of the key column as a string,
  \<open>dropDuplicates('song_id')\<close>; it is read as the subset made of that one column.
\<close>

fun dropDuplicates :: "('a \<Rightarrow> 'k) \<Rightarrow> 'a list \<Rightarrow> 'a list" where
  "dropDuplicates k [] = []"
| "dropDuplicates k (x # xs) = x # dropDuplicates k (filter (\<lambda>y. k y \<noteq> k x) xs)"

text \<open>
  A column comparison \<open>a == b\<close> holds in a \<open>filter\<close> or a join condition only when
  both sides are non-null and equal.
\<close>

definition sql_eq :: "'a option \<Rightarrow> 'a option \<Rightarrow> bool" where
  "sql_eq a b = (case (a, b) of (Some x, Some y) \<Rightarrow> x = y | _ \<Rightarrow> False)"

section \<open>The song pipeline\<close>

definition songs_select :: "('f, 'z) SongRecord_scheme \<Rightarrow> 'f songs_row" where
  "songs_select r =
     \<lparr>songs_song_id = song_id r, songs_title = title r, songs_artist_id = artist_id r,
      songs_duration = duration r, songs_year = year r\<rparr>"

definition songs_table :: "'f SongRecord list \<Rightarrow> 'f songs_row list" where
  "songs_table song_data_df = dropDuplicates songs_song_id (map songs_select song_data_df)"

definition artists_select :: "('f, 'z) SongRecord_scheme \<Rightarrow> 'f artists_row" where
  "artists_select r =
     \<lparr>artists_artist_id = artist_id r, artists_name = artist_name r,
      artists_location = artist_location r, artists_latitude = artist_latitude r,
      artists_longitude = artist_longitude r\<rparr>"

definition artists_table :: "'f SongRecord list \<Rightarrow> 'f artists_row list" where
  "artists_table song_data_df =
     dropDuplicates artists_artist_id (map artists_select song_data_df)"

section \<open>The log pipeline: filter and users\<close>

text \<open>
  \<open>log_data_df = log_data_df.filter(log_data_df.page == 'NextSong')\<close>: every later
  table of \<open>process_log_data\<close> is built from the filtered frame.
\<close>

definition next_song :: "('z) LogEvent_scheme \<Rightarrow> bool" where
  "next_song e = sql_eq (page e) (Some ''NextSong'')"

definition log_data_df :: "LogEvent list \<Rightarrow> LogEvent list" where
  "log_data_df log_data = filter next_song log_data"

definition users_select :: "('z) LogEvent_scheme \<Rightarrow> users_row" where
  "users_select e =
     \<lparr>users_user_id = userId e, users_first_name = firstName e,
      users_last_name = lastName e, users_gender = gender e, users_level = level e\<rparr>"

definition users_table :: "LogEvent list \<Rightarrow> users_row list" where
  "users_table log_data = dropDuplicates users_user_id (map users_select (log_data_df log_data))"

section \<open>The log pipeline: timestamps and the time table\<close>

text \<open>
  The exceptions a row-wise Python function can raise; a job whose function raises on
  some row fails as a whole.
\<close>

datatype error = TypeError | ValueError | OverflowError | OSError

text \<open>
  The library functions on timestamps, taken as parameters: \<open>fromtimestamp cal n\<close> is
  the value a \<open>TimestampType\<close> column holds for \<open>datetime.fromtimestamp(n / 1000.0)\<close> on
  the integer \<open>n\<close> (or the exception raised, out of the library's range), and the others
  are the column functions \<open>hour\<close>, \<open>dayofmonth\<close>, \<open>weekofyear\<close>, \<open>month\<close>, \<open>year\<close> and
  \<open>dayofweek\<close> of \<open>pyspark.sql.functions\<close>. The division by \<open>1000.0\<close> is done in floating
  point and the calendar is the one of the host's time zone: both are inside the
  parameter.
\<close>

record 't calendar =
  fromtimestamp :: "int \<Rightarrow> error + 't"
  cal_hour :: "'t \<Rightarrow> int"
  cal_dayofmonth :: "'t \<Rightarrow> int"
  cal_weekofyear :: "'t \<Rightarrow> int"
  cal_month :: "'t \<Rightarrow> int"
  cal_year :: "'t \<Rightarrow> int"
  cal_dayofweek :: "'t \<Rightarrow> int"

text \<open>
  \<open>get_timestamp = udf(lambda x: datetime.fromtimestamp(int(x)/1000.0), TimestampType())\<close>.
  The function is called on null too, where \<open>int(None)\<close> raises \<open>TypeError\<close>.
\<close>

definition get_timestamp :: "('t, 'z) calendar_scheme \<Rightarrow> int option \<Rightarrow> error + 't" where
  "get_timestamp cal x = (case x of None \<Rightarrow> Inl TypeError | Some n \<Rightarrow> fromtimestamp cal n)"

text \<open>
  \<open>df.withColumn(name, f(df.col))\<close> for a row-wise function that can raise: \<open>f\<close> computes
  the new value of a row and \<open>ext\<close> appends it to the row.
\<close>

primrec withColumn_udf :: "('a \<Rightarrow> error + 'c) \<Rightarrow> ('a \<Rightarrow> 'c \<Rightarrow> 'b) \<Rightarrow> 'a list \<Rightarrow> error + 'b list" where
  "withColumn_udf f ext [] = Inr []"
| "withColumn_udf f ext (x # xs) =
     (case f x of
        Inl e \<Rightarrow> Inl e
      | Inr v \<Rightarrow> (case withColumn_udf f ext xs of
                   Inl e \<Rightarrow> Inl e
                 | Inr ys \<Rightarrow> Inr (ext x v # ys)))"

text \<open>The log frame after each of the two \<open>withColumn\<close> calls.\<close>

record 't LogEvent_timestamp = LogEvent +
  timestamp :: "'t"

record 't LogEvent_datetime = "'t LogEvent_timestamp" +
  datetime :: "'t"

definition add_timestamp :: "LogEvent \<Rightarrow> 't \<Rightarrow> 't LogEvent_timestamp" where
  "add_timestamp e t = LogEvent.extend e (LogEvent_timestamp.fields t)"

definition add_datetime :: "'t LogEvent_timestamp \<Rightarrow> 't \<Rightarrow> 't LogEvent_datetime" where
  "add_datetime e t = LogEvent_timestamp.extend e (LogEvent_datetime.fields t)"

definition log_data_df_timestamp ::
  "('t, 'z) calendar_scheme \<Rightarrow> LogEvent list \<Rightarrow> error + 't LogEvent_timestamp list" where
  "log_data_df_timestamp cal log_data =
     withColumn_udf (\<lambda>e. get_timestamp cal (ts e)) add_timestamp (log_data_df log_data)"

text \<open>
  The \<open>datetime\<close> column: the code defines \<open>get_datetime\<close> and then applies
  \<open>get_timestamp\<close> again.
\<close>

definition log_data_df_datetime ::
  "('t, 'z) calendar_scheme \<Rightarrow> LogEvent list \<Rightarrow> error + 't LogEvent_datetime list" where
  "log_data_df_datetime cal log_data =
     (case log_data_df_timestamp cal log_data of
        Inl e \<Rightarrow> Inl e
      | Inr df \<Rightarrow> withColumn_udf (\<lambda>e. get_timestamp cal (ts e)) add_datetime df)"

record 't time_row =
  time_ts :: "int option"
  time_datetime :: "'t"
  time_timestamp :: "'t"
  time_hour :: int
  time_day :: int
  time_week :: int
  time_month :: int
  time_year :: int
  time_weekday :: int
  time_start_time :: "'t"

definition time_select :: "('t, 'z) calendar_scheme \<Rightarrow> ('t, 'y) LogEvent_datetime_scheme \<Rightarrow> 't time_row" where
  "time_select cal r =
     \<lparr>time_ts = ts r, time_datetime = datetime r, time_timestamp = timestamp r,
      time_hour = cal_hour cal (timestamp r),
      time_day = cal_dayofmonth cal (timestamp r),
      time_week = cal_weekofyear cal (timestamp r),
      time_month = cal_month cal (timestamp r),
      time_year = cal_year cal (timestamp r),
      time_weekday = cal_dayofweek cal (timestamp r),
      time_start_time = timestamp r\<rparr>"

definition time_table :: "('t, 'z) calendar_scheme \<Rightarrow> LogEvent list \<Rightarrow> error + 't time_row list" where
  "time_table cal log_data =
     (case log_data_df_datetime cal log_data of
        Inl e \<Rightarrow> Inl e
      | Inr df \<Rightarrow> Inr (dropDuplicates time_start_time (map (time_select cal) df)))"

section \<open>The log pipeline: join and song plays\<close>

text \<open>
  \<open>left.join(right, on, "left")\<close>: every left row is paired with each right row for which
  the condition holds, and with null columns when there is none.
\<close>

definition join_left :: "('a \<Rightarrow> 'b \<Rightarrow> bool) \<Rightarrow> 'a list \<Rightarrow> 'b list \<Rightarrow> ('a \<times> 'b option) list" where
  "join_left on ls rs =
     concat (map (\<lambda>l. case filter (on l) rs of
                         [] \<Rightarrow> [(l, None)]
                       | m # ms \<Rightarrow> map (\<lambda>r. (l, Some r)) (m # ms)) ls)"

definition join_on :: "('y) LogEvent_scheme \<Rightarrow> ('f, 'z) SongRecord_scheme \<Rightarrow> bool" where
  "join_on l r \<longleftrightarrow> sql_eq (song l) (title r) \<and> sql_eq (artist l) (artist_name r)"

definition sp ::
  "('t, 'z) calendar_scheme \<Rightarrow> LogEvent list \<Rightarrow> 'f SongRecord list \<Rightarrow>
     error + ('t LogEvent_datetime \<times> 'f SongRecord option) list" where
  "sp cal log_data song_df =
     (case log_data_df_datetime cal log_data of
        Inl e \<Rightarrow> Inl e
      | Inr df \<Rightarrow> Inr (join_left join_on df song_df))"

record 't songplays_select_row =
  sp_start_time :: "'t"
  sp_user_id :: "string option"
  sp_level :: "string option"
  sp_song_id :: "string option"
  sp_artist_id :: "string option"
  sp_session_id :: "int option"
  sp_location :: "string option"
  sp_user_agent :: "string option"

record 't songplays_row = "'t songplays_select_row" +
  sp_songplay_id :: int
  sp_month :: int
  sp_year :: int

definition songplays_select ::
  "('t, 'y) LogEvent_datetime_scheme \<times> ('f, 'z) SongRecord_scheme option \<Rightarrow> 't songplays_select_row" where
  "songplays_select lr =
     (case lr of (l, r) \<Rightarrow>
        \<lparr>sp_start_time = timestamp l, sp_user_id = userId l, sp_level = level l,
         sp_song_id = Option.bind r song_id, sp_artist_id = Option.bind r artist_id,
         sp_session_id = sessionId l, sp_location = location l,
         sp_user_agent = userAgent l\<rparr>)"

text \<open>
  \<open>row_number().over(Window.orderBy(col))\<close>: the rows in ascending order of the column,
  numbered from 1. Rows with equal values keep the order they had.
\<close>

definition row_number_over :: "('a \<Rightarrow> 'k::linorder) \<Rightarrow> 'a list \<Rightarrow> ('a \<times> int) list" where
  "row_number_over k df = (let ordered = sort_key k df in zip ordered [1..int (length ordered)])"

definition add_songplay_columns ::
  "('t, 'z) calendar_scheme \<Rightarrow> 't songplays_select_row \<times> int \<Rightarrow> 't songplays_row" where
  "add_songplay_columns cal rn =
     (case rn of (r, n) \<Rightarrow>
        songplays_select_row.extend r
          (songplays_row.fields n (cal_month cal (sp_start_time r)) (cal_year cal (sp_start_time r))))"

definition songplays_table ::
  "('t::linorder, 'z) calendar_scheme \<Rightarrow> LogEvent list \<Rightarrow> 'f SongRecord list \<Rightarrow>
     error + 't songplays_row list" where
  "songplays_table cal log_data song_df =
     (case sp cal log_data song_df of
        Inl e \<Rightarrow> Inl e
      | Inr joined \<Rightarrow>
          Inr (map (add_songplay_columns cal)
                 (row_number_over sp_start_time (map songplays_select joined))))"

section \<open>Writing the tables\<close>

datatype ('f, 't) table =
  Songs "'f songs_row list"
| Artists "'f artists_row list"
| Users "users_row list"
| Time "'t time_row list"
| Songplays "'t songplays_row list"

record ('f, 't) dataset =
  partition_by :: "string list"
  content :: "('f, 't) table"

text \<open>The storage: the dataset found at each path, if any.\<close>

type_synonym ('f, 't) store = "string \<Rightarrow> ('f, 't) dataset option"

text \<open>\<open>table.write.partitionBy(cols).parquet(path, mode="overwrite")\<close>.\<close>

definition parquet_overwrite ::
  "('f, 't) table \<Rightarrow> string list \<Rightarrow> string \<Rightarrow> ('f, 't) store \<Rightarrow> ('f, 't) store" where
  "parquet_overwrite tbl cols path s = s(path \<mapsto> \<lparr>partition_by = cols, content = tbl\<rparr>)"

definition process_song_data :: "'f sources \<Rightarrow> string \<Rightarrow> ('f, 't) store \<Rightarrow> ('f, 't) store" where
  "process_song_data input_data output_data s =
     (let song_data_df = song_json input_data;
          s1 = parquet_overwrite (Songs (songs_table song_data_df)) [''year'', ''artist_id'']
                 (output_data @ ''songs.parquet'') s
      in parquet_overwrite (Artists (artists_table song_data_df)) []
           (output_data @ ''artists.parquet'') s1)"

text \<open>
  The users table is written before the timestamps are computed; a job that fails leaves
  no final storage to speak of, so the result is the exception alone.
\<close>

definition process_log_data ::
  "('t::linorder, 'z) calendar_scheme \<Rightarrow> 'f sources \<Rightarrow> string \<Rightarrow> ('f, 't) store \<Rightarrow>
     error + ('f, 't) store" where
  "process_log_data cal input_data output_data s =
     (let s1 = parquet_overwrite (Users (users_table (log_json input_data))) []
                 (output_data @ ''users.parquet'') s
      in case time_table cal (log_json input_data) of
           Inl e \<Rightarrow> Inl e
         | Inr tt \<Rightarrow>
             (let s2 = parquet_overwrite (Time tt) [''year'', ''month'']
                         (output_data @ ''time.parquet'') s1
              in case songplays_table cal (log_json input_data) (song_json input_data) of
                   Inl e \<Rightarrow> Inl e
                 | Inr spt \<Rightarrow>
                     Inr (parquet_overwrite (Songplays spt) [''year'', ''month'']
                            (output_data @ ''songplays.parquet'') s2)))"

definition output_data :: string where
  "output_data = ''s3://udacity-sparkify-music-dl/''"

definition main ::
  "('t::linorder, 'z) calendar_scheme \<Rightarrow> 'f sources \<Rightarrow> ('f, 't) store \<Rightarrow> error + ('f, 't) store" where
  "main cal input_data s =
     process_log_data cal input_data output_data (process_song_data input_data output_data s)"

section \<open>An instance for concrete runs\<close>

text \<open>
  To run the pipeline on concrete rows the library parameter needs a value. In this
  instance a timestamp is the integer of milliseconds itself, the conversion never
  raises, \<open>cal_hour\<close> is the hour of the day of that instant at offset zero, and the other
  functions count whole days, weeks, 30-day months and 365-day years since the epoch.
  Nothing below depends on these choices but the concrete runs.
\<close>

definition epoch_calendar :: "int calendar" where
  "epoch_calendar =
     \<lparr>fromtimestamp = Inr,
      cal_hour = (\<lambda>t. t div 3600000 mod 24),
      cal_dayofmonth = (\<lambda>t. t div 86400000),
      cal_weekofyear = (\<lambda>t. t div 604800000),
      cal_month = (\<lambda>t. t div 2592000000),
      cal_year = (\<lambda>t. t div 31536000000),
      cal_dayofweek = (\<lambda>t. t div 86400000 mod 7)\<rparr>"

text \<open>A log row and a catalog row with the columns the examples vary.\<close>

definition log_event :: "string \<Rightarrow> string \<Rightarrow> string \<Rightarrow> int \<Rightarrow> string \<Rightarrow> string \<Rightarrow> LogEvent" where
  "log_event pg uid lvl t sg ar =
     \<lparr>ts = Some t, page = Some pg, userId = Some uid, firstName = None, lastName = None,
      gender = None, level = Some lvl, song = Some sg, artist = Some ar,
      sessionId = Some 1, location = None, userAgent = None\<rparr>"

definition song_record :: "string \<Rightarrow> string \<Rightarrow> string \<Rightarrow> string \<Rightarrow> int \<Rightarrow> unit SongRecord" where
  "song_record sid aid ttl nm y =
     \<lparr>artist_id = Some aid, artist_latitude = None, artist_location = None,
      artist_longitude = None, artist_name = Some nm, duration = None, num_songs = Some 1,
      song_id = Some sid, title = Some ttl, year = Some y\<rparr>"

section \<open>Facts about deduplication\<close>

lemma set_dropDuplicates_subset: "set (dropDuplicates k xs) \<subseteq> set xs"
proof (induction k xs rule: dropDuplicates.induct)
  case (1 k)
  show ?case by simp
next
  case (2 k x xs)
  then show ?case by auto
qed

lemma keys_dropDuplicates: "k ` set (dropDuplicates k xs) = k ` set xs"
proof (induction k xs rule: dropDuplicates.induct)
  case (1 k)
  show ?case by simp
next
  case (2 k x xs)
  have "k ` set (x # xs) = insert (k x) (k ` set (filter (\<lambda>y. k y \<noteq> k x) xs))"
    by auto
  with 2 show ?case by simp
qed

lemma distinct_dropDuplicates: "distinct (map k (dropDuplicates k xs))"
proof (induction k xs rule: dropDuplicates.induct)
  case (1 k)
  show ?case by simp
next
  case (2 k x xs)
  have "k x \<notin> k ` set (filter (\<lambda>y. k y \<noteq> k x) xs)"
    by auto
  then have "k x \<notin> k ` set (dropDuplicates k (filter (\<lambda>y. k y \<noteq> k x) xs))"
    unfolding keys_dropDuplicates .
  with 2 show ?case by simp
qed




section \<open>Facts about the row-wise columns\<close>

lemma add_timestamp_sel:
  "ts (add_timestamp e t) = ts e" "page (add_timestamp e t) = page e"
  "userId (add_timestamp e t) = userId e" "level (add_timestamp e t) = level e"
  "song (add_timestamp e t) = song e" "artist (add_timestamp e t) = artist e"
  "sessionId (add_timestamp e t) = sessionId e" "location (add_timestamp e t) = location e"
  "userAgent (add_timestamp e t) = userAgent e" "timestamp (add_timestamp e t) = t"
  by (simp_all add: add_timestamp_def LogEvent.defs LogEvent_timestamp.defs)

lemma add_datetime_sel:
  "ts (add_datetime r d) = ts r" "page (add_datetime r d) = page r"
  "userId (add_datetime r d) = userId r" "level (add_datetime r d) = level r"
  "song (add_datetime r d) = song r" "artist (add_datetime r d) = artist r"
  "sessionId (add_datetime r d) = sessionId r" "location (add_datetime r d) = location r"
  "userAgent (add_datetime r d) = userAgent r" "timestamp (add_datetime r d) = timestamp r"
  "datetime (add_datetime r d) = d"
  by (simp_all add: add_datetime_def LogEvent_timestamp.defs LogEvent_datetime.defs)

lemma withColumn_udf_Inr:
  "withColumn_udf f ext xs = Inr ys \<Longrightarrow> list_all2 (\<lambda>x y. \<exists>v. f x = Inr v \<and> y = ext x v) xs ys"
proof (induction xs arbitrary: ys)
  case Nil
  then show ?case by simp
next
  case (Cons x xs)
  then show ?case by (auto split: sum.splits)
qed

lemma withColumn_udf_total:
  "\<forall>x\<in>set xs. \<exists>v. f x = Inr v \<Longrightarrow> \<exists>ys. withColumn_udf f ext xs = Inr ys"
proof (induction xs)
  case Nil
  show ?case by simp
next
  case (Cons x xs)
  then obtain v ys where "f x = Inr v" "withColumn_udf f ext xs = Inr ys" by auto
  then show ?case by simp
qed

lemma list_all2_map_eq:
  "list_all2 R xs ys \<Longrightarrow> (\<And>x y. R x y \<Longrightarrow> f x = g y) \<Longrightarrow> map f xs = map g ys"
  by (induction rule: list_all2_induct) auto

lemma list_all2_right_all:
  "list_all2 R xs ys \<Longrightarrow> (\<And>x y. R x y \<Longrightarrow> P y) \<Longrightarrow> \<forall>y\<in>set ys. P y"
  by (induction rule: list_all2_induct) auto

lemma log_data_df_datetime_Inr:
  assumes "log_data_df_datetime cal log_data = Inr df"
  shows "list_all2 (\<lambda>e r. \<exists>t. get_timestamp cal (ts e) = Inr t \<and> r = add_datetime (add_timestamp e t) t)
           (log_data_df log_data) df"
proof -
  from assms obtain df1 where
    df1: "log_data_df_timestamp cal log_data = Inr df1" and
    df: "withColumn_udf (\<lambda>e. get_timestamp cal (ts e)) add_datetime df1 = Inr df"
    by (auto simp: log_data_df_datetime_def split: sum.splits)
  have r1: "list_all2 (\<lambda>e r. \<exists>t. get_timestamp cal (ts e) = Inr t \<and> r = add_timestamp e t)
              (log_data_df log_data) df1"
    using df1 unfolding log_data_df_timestamp_def by (rule withColumn_udf_Inr)
  have r2: "list_all2 (\<lambda>r r'. \<exists>t. get_timestamp cal (ts r) = Inr t \<and> r' = add_datetime r t) df1 df"
    using df by (rule withColumn_udf_Inr)
  from r1 r2 show ?thesis
    by (rule list_all2_trans [rotated]) (auto simp: add_timestamp_sel)
qed

lemma log_data_df_datetime_total:
  assumes "\<forall>e\<in>set (log_data_df log_data). \<exists>t. get_timestamp cal (ts e) = Inr t"
  shows "\<exists>df. log_data_df_datetime cal log_data = Inr df"
proof -
  from withColumn_udf_total [OF assms, of add_timestamp]
  obtain df1 where df1: "log_data_df_timestamp cal log_data = Inr df1"
    unfolding log_data_df_timestamp_def by auto
  then have "list_all2 (\<lambda>e r. \<exists>t. get_timestamp cal (ts e) = Inr t \<and> r = add_timestamp e t)
              (log_data_df log_data) df1"
    unfolding log_data_df_timestamp_def by (rule withColumn_udf_Inr)
  then have "\<forall>r\<in>set df1. \<exists>t. get_timestamp cal (ts r) = Inr t"
    by (rule list_all2_right_all) (auto simp: add_timestamp_sel)
  from withColumn_udf_total [OF this, of add_datetime]
  obtain df where "withColumn_udf (\<lambda>e. get_timestamp cal (ts e)) add_datetime df1 = Inr df"
    by auto
  with df1 show ?thesis by (simp add: log_data_df_datetime_def)
qed

lemma next_song_iff: "next_song e \<longleftrightarrow> page e = Some ''NextSong''"
  by (simp add: next_song_def sql_eq_def split: option.splits)

lemma set_log_data_df: "set (log_data_df log_data) = {e \<in> set log_data. page e = Some ''NextSong''}"
  by (auto simp: log_data_df_def next_song_iff)

lemmas fixture_defs = epoch_calendar_def log_event_def song_record_def

lemmas frame_defs =
  log_data_df_def next_song_def sql_eq_def get_timestamp_def
  log_data_df_timestamp_def log_data_df_datetime_def add_timestamp_def add_datetime_def
  LogEvent.defs LogEvent_timestamp.defs LogEvent_datetime.defs

section \<open>The dimension tables\<close>



section \<open>The users table\<close>

text \<open>
  C1, as stated, fails: the users are selected from the frame already filtered to
  NextSong. A user whose only event is a Login has no row in \<open>users\<close>.
\<close>

theorem users_unfiltered_counterexample:
  "Some ''u1'' \<in> userId ` set [log_event ''Login'' ''u1'' ''free'' 5 ''One'' ''Ann''] \<and>
   Some ''u1'' \<notin> users_user_id ` set (users_table [log_event ''Login'' ''u1'' ''free'' 5 ''One'' ''Ann''])"
  by (simp add: users_table_def frame_defs fixture_defs)

text \<open>
  C1, amended. The users table has exactly one row per distinct user id among the events
  with page NextSong: its user ids are pairwise distinct and they are the user ids of
  the NextSong events.
\<close>

theorem users_table_one_row_per_next_song_user:
  "distinct (map users_user_id (users_table log_data)) \<and>
   set (map users_user_id (users_table log_data)) =
     userId ` {e \<in> set log_data. page e = Some ''NextSong''}"
proof -
  have "users_user_id ` set (users_table log_data) =
          users_user_id ` set (map users_select (log_data_df log_data))"
    unfolding users_table_def by (rule keys_dropDuplicates)
  also have "\<dots> = userId ` set (log_data_df log_data)"
    by (simp add: image_image users_select_def)
  finally show ?thesis
    by (simp add: users_table_def distinct_dropDuplicates set_log_data_df)
qed

section \<open>The time table\<close>

lemma list_all2_right_ex:
  "list_all2 R xs ys \<Longrightarrow> y \<in> set ys \<Longrightarrow> \<exists>x\<in>set xs. R x y"
  by (induction rule: list_all2_induct) auto

lemma list_all2_left_ex:
  "list_all2 R xs ys \<Longrightarrow> x \<in> set xs \<Longrightarrow> \<exists>y\<in>set ys. R x y"
  by (induction rule: list_all2_induct) auto

lemma set_log_data_df_datetime:
  assumes "log_data_df_datetime cal log_data = Inr df"
  shows "set df =
           {add_datetime (add_timestamp e t) t | e t.
              e \<in> set log_data \<and> page e = Some ''NextSong'' \<and> get_timestamp cal (ts e) = Inr t}"
    (is "_ = ?S")
proof (rule set_eqI)
  fix r
  note rel = log_data_df_datetime_Inr [OF assms]
  show "r \<in> set df \<longleftrightarrow> r \<in> ?S"
  proof
    assume "r \<in> set df"
    from list_all2_right_ex [OF rel this] show "r \<in> ?S"
      by (auto simp: set_log_data_df)
  next
    assume "r \<in> ?S"
    then obtain e t where e: "e \<in> set (log_data_df log_data)"
      and t: "get_timestamp cal (ts e) = Inr t" and r: "r = add_datetime (add_timestamp e t) t"
      by (auto simp: set_log_data_df)
    from list_all2_left_ex [OF rel e] t r show "r \<in> set df" by auto
  qed
qed

lemma time_select_stamped:
  "time_select cal (add_datetime (add_timestamp e t) t) =
     \<lparr>time_ts = ts e, time_datetime = t, time_timestamp = t,
      time_hour = cal_hour cal t, time_day = cal_dayofmonth cal t,
      time_week = cal_weekofyear cal t, time_month = cal_month cal t,
      time_year = cal_year cal t, time_weekday = cal_dayofweek cal t,
      time_start_time = t\<rparr>"
  by (simp add: time_select_def add_timestamp_sel add_datetime_sel)

lemma time_table_Inr:
  assumes "time_table cal log_data = Inr rows"
  obtains df where "log_data_df_datetime cal log_data = Inr df"
    and "rows = dropDuplicates time_start_time (map (time_select cal) df)"
  using assms by (auto simp: time_table_def split: sum.splits)

lemmas time_defs = time_table_def time_select_def

text \<open>
  C6. The time table is built from the events with page NextSong only. When the
  timestamp of each of them can be computed, the table is produced, its start times are
  pairwise distinct and are exactly the timestamps derived from the \<open>ts\<close> of the NextSong
  events (one row per distinct start time), and hour, day, week, month, year and weekday
  of a row are the calendar functions applied to its start time.
\<close>

theorem time_table_one_row_per_start_time:
  assumes ok: "\<forall>e\<in>set log_data. page e = Some ''NextSong'' \<longrightarrow> (\<exists>t. get_timestamp cal (ts e) = Inr t)"
  shows "\<exists>rows. time_table cal log_data = Inr rows \<and>
           distinct (map time_start_time rows) \<and>
           set (map time_start_time rows) =
             {t. \<exists>e\<in>set log_data. page e = Some ''NextSong'' \<and> get_timestamp cal (ts e) = Inr t} \<and>
           (\<forall>r\<in>set rows.
              time_hour r = cal_hour cal (time_start_time r) \<and>
              time_day r = cal_dayofmonth cal (time_start_time r) \<and>
              time_week r = cal_weekofyear cal (time_start_time r) \<and>
              time_month r = cal_month cal (time_start_time r) \<and>
              time_year r = cal_year cal (time_start_time r) \<and>
              time_weekday r = cal_dayofweek cal (time_start_time r))"
proof -
  from ok have "\<forall>e\<in>set (log_data_df log_data). \<exists>t. get_timestamp cal (ts e) = Inr t"
    by (simp add: set_log_data_df)
  from log_data_df_datetime_total [OF this]
  obtain df where df: "log_data_df_datetime cal log_data = Inr df" by auto
  define rows where "rows = dropDuplicates time_start_time (map (time_select cal) df)"
  have tt: "time_table cal log_data = Inr rows"
    by (simp add: time_table_def df rows_def)
  have d: "distinct (map time_start_time rows)"
    unfolding rows_def by (rule distinct_dropDuplicates)
  have "time_start_time ` set rows = time_start_time ` set (map (time_select cal) df)"
    unfolding rows_def by (rule keys_dropDuplicates)
  also have "\<dots> = timestamp ` set df"
    by (simp add: image_image time_select_def)
  also have "\<dots> = {t. \<exists>e\<in>set log_data. page e = Some ''NextSong'' \<and> get_timestamp cal (ts e) = Inr t}"
    (is "?L = ?R")
  proof (intro set_eqI iffI)
    fix t
    assume "t \<in> ?L"
    then obtain x where "x \<in> set df" and tx: "t = timestamp x" by auto
    then obtain e t' where "e \<in> set log_data" "page e = Some ''NextSong''"
      "get_timestamp cal (ts e) = Inr t'" "x = add_datetime (add_timestamp e t') t'"
      unfolding set_log_data_df_datetime [OF df] by auto
    with tx show "t \<in> ?R" by (auto simp: add_timestamp_sel add_datetime_sel)
  next
    fix t
    assume "t \<in> ?R"
    then obtain e where "e \<in> set log_data" "page e = Some ''NextSong''"
      "get_timestamp cal (ts e) = Inr t" by auto
    then have "add_datetime (add_timestamp e t) t \<in> set df"
      unfolding set_log_data_df_datetime [OF df] by blast
    then have "timestamp (add_datetime (add_timestamp e t) t) \<in> timestamp ` set df"
      by (rule imageI)
    then show "t \<in> ?L" by (simp add: add_timestamp_sel add_datetime_sel)
  qed
  finally have s: "set (map time_start_time rows) =
      {t. \<exists>e\<in>set log_data. page e = Some ''NextSong'' \<and> get_timestamp cal (ts e) = Inr t}"
    by simp
  have "set rows \<subseteq> set (map (time_select cal) df)"
    unfolding rows_def by (rule set_dropDuplicates_subset)
  then have c: "\<forall>r\<in>set rows.
              time_hour r = cal_hour cal (time_start_time r) \<and>
              time_day r = cal_dayofmonth cal (time_start_time r) \<and>
              time_week r = cal_weekofyear cal (time_start_time r) \<and>
              time_month r = cal_month cal (time_start_time r) \<and>
              time_year r = cal_year cal (time_start_time r) \<and>
              time_weekday r = cal_dayofweek cal (time_start_time r)"
    by (auto simp: time_select_def)
  from tt d s c show ?thesis by blast
qed

text \<open>Two plays in the same millisecond, a later play and a Home event.\<close>

theorem time_table_one_row_per_start_time_witness:
  "time_table epoch_calendar
     [log_event ''NextSong'' ''u1'' ''free'' 7200000 ''One'' ''Ann'',
      log_event ''Home'' ''u2'' ''free'' 9 ''One'' ''Ann'',
      log_event ''NextSong'' ''u3'' ''paid'' 7200000 ''Two'' ''Bob'',
      log_event ''NextSong'' ''u1'' ''free'' 10800000 ''Two'' ''Bob''] =
   Inr [\<lparr>time_ts = Some 7200000, time_datetime = 7200000, time_timestamp = 7200000,
          time_hour = 2, time_day = 0, time_week = 0, time_month = 0, time_year = 0,
          time_weekday = 0, time_start_time = 7200000\<rparr>,
        \<lparr>time_ts = Some 10800000, time_datetime = 10800000, time_timestamp = 10800000,
          time_hour = 3, time_day = 0, time_week = 0, time_month = 0, time_year = 0,
          time_weekday = 0, time_start_time = 10800000\<rparr>]"
proof -
  let ?log = "[log_event ''NextSong'' ''u1'' ''free'' 7200000 ''One'' ''Ann'',
      log_event ''Home'' ''u2'' ''free'' 9 ''One'' ''Ann'',
      log_event ''NextSong'' ''u3'' ''paid'' 7200000 ''Two'' ''Bob'',
      log_event ''NextSong'' ''u1'' ''free'' 10800000 ''Two'' ''Bob'']"
  have h: "\<forall>e\<in>set ?log. page e = Some ''NextSong'' \<longrightarrow>
             (\<exists>t. get_timestamp epoch_calendar (ts e) = Inr t)"
    by (simp add: get_timestamp_def fixture_defs)
  from time_table_one_row_per_start_time [OF h] show ?thesis
    by (simp add: time_defs frame_defs fixture_defs)
qed

text \<open>
  C10. Every row of the time table that is written has, next to start time, hour, day,
  week, month, year and weekday, the three columns \<open>ts\<close>, \<open>datetime\<close> and \<open>timestamp\<close>:
  \<open>ts\<close> is the \<open>ts\<close> of a NextSong event, and \<open>datetime\<close> and \<open>timestamp\<close> are both the
  value \<open>get_timestamp\<close> gives for it, so they are equal on every row.
\<close>

theorem time_table_extra_columns:
  assumes "time_table cal log_data = Inr rows" and "r \<in> set rows"
  shows "time_datetime r = time_timestamp r \<and>
         (\<exists>e\<in>set log_data. \<exists>t.
            page e = Some ''NextSong'' \<and> get_timestamp cal (ts e) = Inr t \<and>
            r = \<lparr>time_ts = ts e, time_datetime = t, time_timestamp = t,
                 time_hour = cal_hour cal t, time_day = cal_dayofmonth cal t,
                 time_week = cal_weekofyear cal t, time_month = cal_month cal t,
                 time_year = cal_year cal t, time_weekday = cal_dayofweek cal t,
                 time_start_time = t\<rparr>)"
proof -
  from assms(1) obtain df where df: "log_data_df_datetime cal log_data = Inr df"
    and rows: "rows = dropDuplicates time_start_time (map (time_select cal) df)"
    by (rule time_table_Inr)
  from assms(2) have "r \<in> set (map (time_select cal) df)"
    unfolding rows using set_dropDuplicates_subset [of time_start_time "map (time_select cal) df"]
    by (rule rev_subsetD)
  then obtain x where x: "x \<in> set df" and r: "r = time_select cal x" by auto
  from x obtain e t where e: "e \<in> set log_data" "page e = Some ''NextSong''"
    "get_timestamp cal (ts e) = Inr t" and xe: "x = add_datetime (add_timestamp e t) t"
    unfolding set_log_data_df_datetime [OF df] by auto
  from r xe have row: "r = \<lparr>time_ts = ts e, time_datetime = t, time_timestamp = t,
                 time_hour = cal_hour cal t, time_day = cal_dayofmonth cal t,
                 time_week = cal_weekofyear cal t, time_month = cal_month cal t,
                 time_year = cal_year cal t, time_weekday = cal_dayofweek cal t,
                 time_start_time = t\<rparr>"
    by (simp only: time_select_stamped)
  then have "time_datetime r = time_timestamp r" by simp
  moreover from e row have "\<exists>e\<in>set log_data. \<exists>t.
            page e = Some ''NextSong'' \<and> get_timestamp cal (ts e) = Inr t \<and>
            r = \<lparr>time_ts = ts e, time_datetime = t, time_timestamp = t,
                 time_hour = cal_hour cal t, time_day = cal_dayofmonth cal t,
                 time_week = cal_weekofyear cal t, time_month = cal_month cal t,
                 time_year = cal_year cal t, time_weekday = cal_dayofweek cal t,
                 time_start_time = t\<rparr>"
    by (intro bexI [of _ e] exI [of _ t] conjI)
  ultimately show ?thesis by (rule conjI)
qed

theorem time_table_extra_columns_witness:
  "time_table epoch_calendar [log_event ''NextSong'' ''u1'' ''free'' 7200000 ''One'' ''Ann''] =
     Inr [\<lparr>time_ts = Some 7200000, time_datetime = 7200000, time_timestamp = 7200000,
          time_hour = 2, time_day = 0, time_week = 0, time_month = 0, time_year = 0,
          time_weekday = 0, time_start_time = 7200000\<rparr>] \<and>
   time_datetime \<lparr>time_ts = Some 7200000, time_datetime = 7200000, time_timestamp = 7200000,
          time_hour = 2, time_day = 0, time_week = 0, time_month = 0, time_year = 0,
          time_weekday = 0, time_start_time = (7200000::int)\<rparr> = 7200000"
proof -
  let ?r = "\<lparr>time_ts = Some 7200000, time_datetime = 7200000, time_timestamp = 7200000,
          time_hour = 2, time_day = 0, time_week = 0, time_month = 0, time_year = 0,
          time_weekday = 0, time_start_time = (7200000::int)\<rparr>"
  have t: "time_table epoch_calendar [log_event ''NextSong'' ''u1'' ''free'' 7200000 ''One'' ''Ann''] =
     Inr [?r]"
    by (simp add: time_defs frame_defs fixture_defs)
  have m: "?r \<in> set [?r]" by simp
  from time_table_extra_columns [OF t m] t show ?thesis by simp
qed

section \<open>The fact table\<close>

lemma join_left_row_length:
  "length (case filter P rs of [] \<Rightarrow> [(l, None)] | m # ms \<Rightarrow> map (\<lambda>r. (l, Some r)) (m # ms)) =
     max 1 (length (filter P rs))"
  by (cases "filter P rs") simp_all

lemma length_join_left:
  "length (join_left on ls rs) = (\<Sum>l\<leftarrow>ls. max 1 (length (filter (on l) rs)))"
  by (simp add: join_left_def length_concat comp_def join_left_row_length)

lemma join_left_row_set:
  "set (case filter P rs of [] \<Rightarrow> [(l, None)] | m # ms \<Rightarrow> map (\<lambda>r. (l, Some r)) (m # ms)) =
     {(l, Some r) | r. r \<in> set rs \<and> P r} \<union> {(l, None) | u::unit. \<forall>r\<in>set rs. \<not> P r}"
proof (cases "filter P rs")
  case Nil
  then have "\<forall>r\<in>set rs. \<not> P r" by (simp add: filter_empty_conv)
  with Nil show ?thesis by auto
next
  case (Cons m ms)
  then have "set (m # ms) = {r \<in> set rs. P r}" by (metis set_filter)
  moreover from this have "\<not> (\<forall>r\<in>set rs. \<not> P r)" by auto
  ultimately show ?thesis unfolding Cons by auto
qed

lemma set_join_left:
  "set (join_left on ls rs) =
     {(l, Some r) | l r. l \<in> set ls \<and> r \<in> set rs \<and> on l r} \<union>
     {(l, None) | l. l \<in> set ls \<and> (\<forall>r\<in>set rs. \<not> on l r)}"
  unfolding join_left_def set_concat set_map image_image join_left_row_set by auto

lemma add_songplay_columns_sel:
  "sp_start_time (add_songplay_columns cal (r, n)) = sp_start_time r"
  "sp_user_id (add_songplay_columns cal (r, n)) = sp_user_id r"
  "sp_level (add_songplay_columns cal (r, n)) = sp_level r"
  "sp_song_id (add_songplay_columns cal (r, n)) = sp_song_id r"
  "sp_artist_id (add_songplay_columns cal (r, n)) = sp_artist_id r"
  "sp_session_id (add_songplay_columns cal (r, n)) = sp_session_id r"
  "sp_location (add_songplay_columns cal (r, n)) = sp_location r"
  "sp_user_agent (add_songplay_columns cal (r, n)) = sp_user_agent r"
  "sp_songplay_id (add_songplay_columns cal (r, n)) = n"
  "sp_month (add_songplay_columns cal (r, n)) = cal_month cal (sp_start_time r)"
  "sp_year (add_songplay_columns cal (r, n)) = cal_year cal (sp_start_time r)"
  by (simp_all add: add_songplay_columns_def songplays_select_row.defs songplays_row.defs)

lemma songplays_select_stamped:
  "songplays_select (add_datetime (add_timestamp e t) t, c) =
     \<lparr>sp_start_time = t, sp_user_id = userId e, sp_level = level e,
      sp_song_id = Option.bind c song_id, sp_artist_id = Option.bind c artist_id,
      sp_session_id = sessionId e, sp_location = location e, sp_user_agent = userAgent e\<rparr>"
  by (simp add: songplays_select_def add_timestamp_sel add_datetime_sel)

lemma join_on_stamped: "join_on (add_datetime (add_timestamp e t) t) = join_on e"
  by (simp add: fun_eq_iff join_on_def add_timestamp_sel add_datetime_sel)

lemma join_on_iff:
  "join_on e c \<longleftrightarrow>
     (\<exists>s a. song e = Some s \<and> title c = Some s \<and> artist e = Some a \<and> artist_name c = Some a)"
  by (auto simp: join_on_def sql_eq_def split: option.splits)

lemma row_number_over_fst: "map fst (row_number_over k df) = sort_key k df"
  by (simp add: row_number_over_def Let_def)

lemma row_number_over_snd: "map snd (row_number_over k df) = [1..int (length df)]"
  by (simp add: row_number_over_def Let_def)

lemma length_row_number_over: "length (row_number_over k df) = length df"
  by (simp add: row_number_over_def Let_def)

lemma songplays_table_Inr:
  assumes "songplays_table cal log_data song_df = Inr rows"
  obtains df where "log_data_df_datetime cal log_data = Inr df"
    and "rows = map (add_songplay_columns cal)
                  (row_number_over sp_start_time (map songplays_select (join_left join_on df song_df)))"
  using assms by (auto simp: songplays_table_def sp_def split: sum.splits)

lemma songplays_table_total:
  assumes "\<forall>e\<in>set log_data. page e = Some ''NextSong'' \<longrightarrow> (\<exists>t. get_timestamp cal (ts e) = Inr t)"
  shows "\<exists>rows. songplays_table cal log_data song_df = Inr rows"
proof -
  from assms have "\<forall>e\<in>set (log_data_df log_data). \<exists>t. get_timestamp cal (ts e) = Inr t"
    by (simp add: set_log_data_df)
  from log_data_df_datetime_total [OF this]
  obtain df where "log_data_df_datetime cal log_data = Inr df" by auto
  then show ?thesis by (simp add: songplays_table_def sp_def)
qed

lemma songplays_start_time_id:
  "map sp_start_time (map (add_songplay_columns cal) (row_number_over sp_start_time sel)) =
     map sp_start_time (sort_key sp_start_time sel)"
  "map sp_songplay_id (map (add_songplay_columns cal) (row_number_over sp_start_time sel)) =
     [1..int (length sel)]"
proof -
  have "map sp_start_time (map (add_songplay_columns cal) (row_number_over sp_start_time sel)) =
          map (sp_start_time \<circ> fst) (row_number_over sp_start_time sel)"
    by (simp add: comp_def split_beta add_songplay_columns_sel(1) [of cal "fst p" "snd p" for p, simplified])
  then show "map sp_start_time (map (add_songplay_columns cal) (row_number_over sp_start_time sel)) =
     map sp_start_time (sort_key sp_start_time sel)"
    by (simp add: row_number_over_fst [symmetric])
  have "map sp_songplay_id (map (add_songplay_columns cal) (row_number_over sp_start_time sel)) =
          map snd (row_number_over sp_start_time sel)"
    by (simp add: comp_def split_beta add_songplay_columns_sel(9) [of cal "fst p" "snd p" for p, simplified])
  then show "map sp_songplay_id (map (add_songplay_columns cal) (row_number_over sp_start_time sel)) =
     [1..int (length sel)]"
    by (simp add: row_number_over_snd)
qed

lemma sum_max_one_ge_length: "length xs \<le> (\<Sum>x\<leftarrow>xs. max 1 (f x :: nat))"
  by (induction xs) auto

lemma sum_max_one_eq_length:
  "\<forall>x\<in>set xs. f x \<le> (1::nat) \<Longrightarrow> (\<Sum>x\<leftarrow>xs. max 1 (f x)) = length xs"
  by (induction xs) (auto simp: max_def)

lemma length_songplays_table:
  assumes "songplays_table cal log_data song_df = Inr rows"
  shows "length rows = (\<Sum>e\<leftarrow>log_data_df log_data. max 1 (length (filter (join_on e) song_df)))"
proof -
  from assms obtain df where df: "log_data_df_datetime cal log_data = Inr df"
    and rows: "rows = map (add_songplay_columns cal)
                  (row_number_over sp_start_time (map songplays_select (join_left join_on df song_df)))"
    by (rule songplays_table_Inr)
  have "map (\<lambda>e. max 1 (length (filter (join_on e) song_df))) (log_data_df log_data) =
        map (\<lambda>l. max 1 (length (filter (join_on l) song_df))) df"
    using log_data_df_datetime_Inr [OF df]
    by (rule list_all2_map_eq) (auto simp: join_on_stamped)
  then show ?thesis
    by (simp add: rows length_row_number_over length_join_left)
qed

lemma sorted_ids_order:
  fixes k :: "'a \<Rightarrow> 'k::linorder"
  assumes srt: "sorted (map k rows)" and ids: "map f rows = [1..int (length rows)]"
    and r: "r \<in> set rows" and r': "r' \<in> set rows" and lt: "k r < k r'"
  shows "f r < f r'"
proof -
  from r obtain i where i: "i < length rows" "rows ! i = r" by (auto simp: in_set_conv_nth)
  from r' obtain j where j: "j < length rows" "rows ! j = r'" by (auto simp: in_set_conv_nth)
  have id: "f (rows ! n) = 1 + int n" if "n < length rows" for n
  proof -
    from that have "f (rows ! n) = map f rows ! n" by simp
    also from that have "\<dots> = 1 + int n" unfolding ids by (simp add: nth_upto)
    finally show ?thesis .
  qed
  have "i < j"
  proof (rule ccontr)
    assume "\<not> i < j"
    then have "j \<le> i" by simp
    with srt i(1) have "map k rows ! j \<le> map k rows ! i"
      by (simp add: sorted_iff_nth_mono del: nth_map)
    with i j lt show False by simp
  qed
  with id [OF i(1)] id [OF j(1)] i j show ?thesis by simp
qed

lemma row_number_over_member:
  "s \<in> set sel \<Longrightarrow> \<exists>n. (s, n) \<in> set (row_number_over k sel)"
proof -
  assume "s \<in> set sel"
  then have "s \<in> set (map fst (row_number_over k sel))"
    by (simp add: row_number_over_fst)
  then show ?thesis by auto
qed

lemma row_number_over_origin:
  "(s, n) \<in> set (row_number_over k sel) \<Longrightarrow> s \<in> set sel"
proof -
  assume "(s, n) \<in> set (row_number_over k sel)"
  then have "fst (s, n) \<in> set (map fst (row_number_over k sel))"
    unfolding set_map by (rule imageI)
  then show ?thesis by (simp add: row_number_over_fst)
qed

lemma songplays_row_of_pair:
  assumes rows: "songplays_table cal log_data song_df = Inr rows"
    and e: "e \<in> set log_data" "page e = Some ''NextSong''" "get_timestamp cal (ts e) = Inr t"
    and c: "(c = None \<and> (\<forall>c'\<in>set song_df. \<not> join_on e c')) \<or>
            (\<exists>c'. c = Some c' \<and> c' \<in> set song_df \<and> join_on e c')"
  shows "\<exists>n. add_songplay_columns cal
               (songplays_select (add_datetime (add_timestamp e t) t, c), n) \<in> set rows"
proof -
  from rows obtain df where df: "log_data_df_datetime cal log_data = Inr df"
    and eq: "rows = map (add_songplay_columns cal)
                  (row_number_over sp_start_time (map songplays_select (join_left join_on df song_df)))"
    by (rule songplays_table_Inr)
  let ?x = "add_datetime (add_timestamp e t) t"
  from e have x: "?x \<in> set df"
    unfolding set_log_data_df_datetime [OF df] by blast
  from c have "(?x, c) \<in> set (join_left join_on df song_df)"
  proof
    assume "c = None \<and> (\<forall>c'\<in>set song_df. \<not> join_on e c')"
    with x show ?thesis by (simp add: set_join_left join_on_stamped)
  next
    assume "\<exists>c'. c = Some c' \<and> c' \<in> set song_df \<and> join_on e c'"
    with x show ?thesis by (auto simp: set_join_left join_on_stamped)
  qed
  then have "songplays_select (?x, c) \<in> set (map songplays_select (join_left join_on df song_df))"
    unfolding set_map by (rule imageI)
  from row_number_over_member [OF this, of sp_start_time]
  obtain n where "(songplays_select (?x, c), n) \<in>
      set (row_number_over sp_start_time (map songplays_select (join_left join_on df song_df)))"
    by blast
  then have "add_songplay_columns cal (songplays_select (?x, c), n) \<in> set rows"
    unfolding eq set_map by (rule imageI)
  then show ?thesis ..
qed

lemma songplays_row_origin:
  assumes rows: "songplays_table cal log_data song_df = Inr rows" and r: "r \<in> set rows"
  shows "\<exists>e t c n. e \<in> set log_data \<and> page e = Some ''NextSong'' \<and>
           get_timestamp cal (ts e) = Inr t \<and>
           ((c = None \<and> (\<forall>c'\<in>set song_df. \<not> join_on e c')) \<or>
            (\<exists>c'. c = Some c' \<and> c' \<in> set song_df \<and> join_on e c')) \<and>
           r = add_songplay_columns cal
                 (songplays_select (add_datetime (add_timestamp e t) t, c), n)"
proof -
  from rows obtain df where df: "log_data_df_datetime cal log_data = Inr df"
    and eq: "rows = map (add_songplay_columns cal)
                  (row_number_over sp_start_time (map songplays_select (join_left join_on df song_df)))"
    by (rule songplays_table_Inr)
  from r obtain s n where
    sn: "(s, n) \<in> set (row_number_over sp_start_time (map songplays_select (join_left join_on df song_df)))"
    and rs: "r = add_songplay_columns cal (s, n)"
    unfolding eq by auto
  from row_number_over_origin [OF sn]
  obtain x c where xc: "(x, c) \<in> set (join_left join_on df song_df)" and s: "s = songplays_select (x, c)"
    by auto
  from xc have x: "x \<in> set df"
    and c: "(c = None \<and> (\<forall>c'\<in>set song_df. \<not> join_on x c')) \<or>
            (\<exists>c'. c = Some c' \<and> c' \<in> set song_df \<and> join_on x c')"
    by (auto simp: set_join_left)
  from x obtain e t where e: "e \<in> set log_data" "page e = Some ''NextSong''"
    "get_timestamp cal (ts e) = Inr t" and xe: "x = add_datetime (add_timestamp e t) t"
    unfolding set_log_data_df_datetime [OF df] by auto
  from c have "(c = None \<and> (\<forall>c'\<in>set song_df. \<not> join_on e c')) \<or>
            (\<exists>c'. c = Some c' \<and> c' \<in> set song_df \<and> join_on e c')"
    unfolding xe join_on_stamped .
  with e rs s xe show ?thesis by blast
qed

lemma songplay_row_fields:
  "r = add_songplay_columns cal (songplays_select (add_datetime (add_timestamp e t) t, c), n) \<Longrightarrow>
   sp_start_time r = t \<and> sp_user_id r = userId e \<and> sp_level r = level e \<and>
   sp_session_id r = sessionId e \<and> sp_location r = location e \<and>
   sp_user_agent r = userAgent e \<and>
   sp_song_id r = Option.bind c song_id \<and> sp_artist_id r = Option.bind c artist_id"
  by (simp add: add_songplay_columns_sel songplays_select_stamped)

lemma truncate_add_songplay_columns:
  "songplays_select_row.truncate (add_songplay_columns cal (r, n)) = r"
  by (simp add: add_songplay_columns_def songplays_select_row.defs songplays_row.defs)

lemma map_truncate_songplays:
  "map songplays_select_row.truncate
     (map (add_songplay_columns cal) (row_number_over sp_start_time sel)) =
   sort_key sp_start_time sel"
proof -
  have "map songplays_select_row.truncate
          (map (add_songplay_columns cal) (row_number_over sp_start_time sel)) =
        map fst (row_number_over sp_start_time sel)"
    by (simp add: comp_def split_beta
        truncate_add_songplay_columns [of cal "fst p" "snd p" for p, simplified])
  then show ?thesis by (simp only: row_number_over_fst)
qed

lemma join_on_explicit:
  "join_on e =
     (\<lambda>c. \<exists>s a. song e = Some s \<and> title c = Some s \<and> artist e = Some a \<and> artist_name c = Some a)"
  by (simp add: fun_eq_iff join_on_iff)

lemma log_data_df_explicit:
  "log_data_df log_data = filter (\<lambda>e. page e = Some ''NextSong'') log_data"
  by (simp add: log_data_df_def next_song_iff [abs_def])

lemma join_left_groups:
  "join_left on ls rs =
     concat (map (\<lambda>l. case filter (on l) rs of
                          [] \<Rightarrow> [(l, None)]
                        | m # ms \<Rightarrow> map (\<lambda>r. (l, Some r)) (m # ms)) ls)"
  by (simp add: join_left_def)

lemma fact_group_stamped:
  "map songplays_select
     (case filter (join_on (add_datetime (add_timestamp e t) t)) song_df of
        [] \<Rightarrow> [(add_datetime (add_timestamp e t) t, None)]
      | m # ms \<Rightarrow> map (\<lambda>c. (add_datetime (add_timestamp e t) t, Some c)) (m # ms)) =
   (case filter (join_on e) song_df of
      [] \<Rightarrow>
        [\<lparr>sp_start_time = t, sp_user_id = userId e, sp_level = level e,
          sp_song_id = None, sp_artist_id = None, sp_session_id = sessionId e,
          sp_location = location e, sp_user_agent = userAgent e\<rparr>]
    | m # ms \<Rightarrow>
        map (\<lambda>c. \<lparr>sp_start_time = t, sp_user_id = userId e, sp_level = level e,
                   sp_song_id = song_id c, sp_artist_id = artist_id c,
                   sp_session_id = sessionId e, sp_location = location e,
                   sp_user_agent = userAgent e\<rparr>) (m # ms))"
  by (cases "filter (join_on e) song_df")
     (simp_all add: join_on_stamped songplays_select_stamped)

lemma fact_groups:
  fixes song_df :: "'f SongRecord list" and cal :: "('t::linorder, 'z) calendar_scheme"
  assumes rows: "songplays_table cal log_data song_df = Inr rows"
  shows "\<exists>groups.
     list_all2
       (\<lambda>e g. \<exists>t. get_timestamp cal (ts e) = Inr t \<and>
          g = (case filter (join_on e) song_df of
                 [] \<Rightarrow>
                   [\<lparr>sp_start_time = t, sp_user_id = userId e, sp_level = level e,
                     sp_song_id = None, sp_artist_id = None, sp_session_id = sessionId e,
                     sp_location = location e, sp_user_agent = userAgent e\<rparr>]
               | m # ms \<Rightarrow>
                   map (\<lambda>c. \<lparr>sp_start_time = t, sp_user_id = userId e, sp_level = level e,
                              sp_song_id = song_id c, sp_artist_id = artist_id c,
                              sp_session_id = sessionId e, sp_location = location e,
                              sp_user_agent = userAgent e\<rparr>) (m # ms)))
       (log_data_df log_data) groups \<and>
     mset (map songplays_select_row.truncate rows) = mset (concat groups)"
proof -
  from rows obtain df where df: "log_data_df_datetime cal log_data = Inr df"
    and eq: "rows = map (add_songplay_columns cal)
                  (row_number_over sp_start_time (map songplays_select (join_left join_on df song_df)))"
    by (rule songplays_table_Inr)
  define G where "G = (\<lambda>l :: 't LogEvent_datetime. map songplays_select
     (case filter (join_on l) song_df of
        [] \<Rightarrow> [(l, None)]
      | m # ms \<Rightarrow> map (\<lambda>c. (l, Some c)) (m # ms)))"
  have sel: "map songplays_select (join_left join_on df song_df) = concat (map G df)"
    by (simp add: join_left_groups map_concat G_def comp_def)
  have "mset (map songplays_select_row.truncate rows) =
          mset (map songplays_select (join_left join_on df song_df))"
    unfolding eq map_truncate_songplays by simp
  then have bag: "mset (map songplays_select_row.truncate rows) = mset (concat (map G df))"
    by (simp only: sel)
  have "list_all2
       (\<lambda>e r. \<exists>t. get_timestamp cal (ts e) = Inr t \<and>
          G r = (case filter (join_on e) song_df of
                 [] \<Rightarrow>
                   [\<lparr>sp_start_time = t, sp_user_id = userId e, sp_level = level e,
                     sp_song_id = None, sp_artist_id = None, sp_session_id = sessionId e,
                     sp_location = location e, sp_user_agent = userAgent e\<rparr>]
               | m # ms \<Rightarrow>
                   map (\<lambda>c. \<lparr>sp_start_time = t, sp_user_id = userId e, sp_level = level e,
                              sp_song_id = song_id c, sp_artist_id = artist_id c,
                              sp_session_id = sessionId e, sp_location = location e,
                              sp_user_agent = userAgent e\<rparr>) (m # ms)))
       (log_data_df log_data) df"
    using log_data_df_datetime_Inr [OF df]
  proof (rule list_all2_mono)
    fix e and r :: "'t LogEvent_datetime"
    assume "\<exists>t. get_timestamp cal (ts e) = Inr t \<and> r = add_datetime (add_timestamp e t) t"
    then obtain t where t: "get_timestamp cal (ts e) = Inr t"
      and r: "r = add_datetime (add_timestamp e t) t" by blast
    have "G r = (case filter (join_on e) song_df of
                 [] \<Rightarrow>
                   [\<lparr>sp_start_time = t, sp_user_id = userId e, sp_level = level e,
                     sp_song_id = None, sp_artist_id = None, sp_session_id = sessionId e,
                     sp_location = location e, sp_user_agent = userAgent e\<rparr>]
               | m # ms \<Rightarrow>
                   map (\<lambda>c. \<lparr>sp_start_time = t, sp_user_id = userId e, sp_level = level e,
                              sp_song_id = song_id c, sp_artist_id = artist_id c,
                              sp_session_id = sessionId e, sp_location = location e,
                              sp_user_agent = userAgent e\<rparr>) (m # ms))"
      unfolding G_def r by (rule fact_group_stamped)
    with t show "\<exists>t. get_timestamp cal (ts e) = Inr t \<and>
          G r = (case filter (join_on e) song_df of
                 [] \<Rightarrow>
                   [\<lparr>sp_start_time = t, sp_user_id = userId e, sp_level = level e,
                     sp_song_id = None, sp_artist_id = None, sp_session_id = sessionId e,
                     sp_location = location e, sp_user_agent = userAgent e\<rparr>]
               | m # ms \<Rightarrow>
                   map (\<lambda>c. \<lparr>sp_start_time = t, sp_user_id = userId e, sp_level = level e,
                              sp_song_id = song_id c, sp_artist_id = artist_id c,
                              sp_session_id = sessionId e, sp_location = location e,
                              sp_user_agent = userAgent e\<rparr>) (m # ms))"
      by (intro exI [of _ t] conjI)
  qed
  then have "list_all2
       (\<lambda>e g. \<exists>t. get_timestamp cal (ts e) = Inr t \<and>
          g = (case filter (join_on e) song_df of
                 [] \<Rightarrow>
                   [\<lparr>sp_start_time = t, sp_user_id = userId e, sp_level = level e,
                     sp_song_id = None, sp_artist_id = None, sp_session_id = sessionId e,
                     sp_location = location e, sp_user_agent = userAgent e\<rparr>]
               | m # ms \<Rightarrow>
                   map (\<lambda>c. \<lparr>sp_start_time = t, sp_user_id = userId e, sp_level = level e,
                              sp_song_id = song_id c, sp_artist_id = artist_id c,
                              sp_session_id = sessionId e, sp_location = location e,
                              sp_user_agent = userAgent e\<rparr>) (m # ms)))
       (log_data_df log_data) (map G df)"
    by (simp only: list_all2_map2)
  with bag show ?thesis by (intro exI [of _ "map G df"] conjI)
qed

lemma list_all2_group_length:
  "list_all2 (\<lambda>e g. \<exists>t. P e t \<and> g = (case f e of [] \<Rightarrow> [a e t] | m # ms \<Rightarrow> map (b e t) (m # ms)))
     xs gs \<Longrightarrow>
   list_all2 (\<lambda>e g. length g = max 1 (length (f e))) xs gs"
proof (erule list_all2_mono)
  fix e g
  assume "\<exists>t. P e t \<and> g = (case f e of [] \<Rightarrow> [a e t] | m # ms \<Rightarrow> map (b e t) (m # ms))"
  then show "length g = max 1 (length (f e))"
    by (cases "f e") auto
qed

lemmas songplays_defs =
  songplays_table_def sp_def join_left_def join_on_def songplays_select_def
  row_number_over_def add_songplay_columns_def songplays_select_row.defs songplays_row.defs
  upto.simps

text \<open>
  C2, as stated, fails: with two catalog rows of the same title and artist name, the one
  NextSong event that matches them yields two rows of \<open>songplays\<close>.
\<close>

theorem songplays_one_row_per_event_counterexample:
  "length (log_data_df [log_event ''NextSong'' ''u1'' ''free'' 5 ''One'' ''Ann'']) = 1 \<and>
   songplays_table epoch_calendar
     [log_event ''NextSong'' ''u1'' ''free'' 5 ''One'' ''Ann'']
     [song_record ''S1'' ''A1'' ''One'' ''Ann'' 1999, song_record ''S2'' ''A2'' ''One'' ''Ann'' 2001] =
   Inr [\<lparr>sp_start_time = 5, sp_user_id = Some ''u1'', sp_level = Some ''free'',
          sp_song_id = Some ''S1'', sp_artist_id = Some ''A1'', sp_session_id = Some 1,
          sp_location = None, sp_user_agent = None, sp_songplay_id = 1, sp_month = 0,
          sp_year = 0\<rparr>,
        \<lparr>sp_start_time = 5, sp_user_id = Some ''u1'', sp_level = Some ''free'',
          sp_song_id = Some ''S2'', sp_artist_id = Some ''A2'', sp_session_id = Some 1,
          sp_location = None, sp_user_agent = None, sp_songplay_id = 2, sp_month = 0,
          sp_year = 0\<rparr>]"
  by (simp add: songplays_defs frame_defs fixture_defs)

text \<open>
  C2, amended. When the timestamp of every NextSong event can be computed, the fact
  table is produced and its rows are, event by event, these and no others: for each
  event with page NextSong, one row for each catalog row whose title and artist name
  equal the event's song and artist, with the event's columns and the \<open>song_id\<close> and
  \<open>artist_id\<close> of that catalog row, and one row with null \<open>song_id\<close> and \<open>artist_id\<close>
  when no catalog row matches. That is \<open>max 1 k\<close> rows for an event with \<open>k\<close> matches:
  \<open>groups\<close> holds the rows of each NextSong event, in the order of the events, and the
  rows of the table without \<open>songplay_id\<close>, \<open>month\<close> and \<open>year\<close> are the rows of the groups,
  each as often as it occurs there. So no event is dropped, and the table has exactly
  one row per NextSong event when no event matches more than one catalog row.
\<close>

theorem songplays_rows_per_event:
  fixes song_df :: "'f SongRecord list" and cal :: "('t::linorder, 'z) calendar_scheme"
    and log_data :: "LogEvent list"
  defines "plays \<equiv> filter (\<lambda>e. page e = Some ''NextSong'') log_data"
    and "matches \<equiv> \<lambda>e :: LogEvent.
           filter (\<lambda>c. \<exists>s a. song e = Some s \<and> title c = Some s \<and>
                               artist e = Some a \<and> artist_name c = Some a) song_df"
  assumes ok: "\<forall>e\<in>set log_data. page e = Some ''NextSong'' \<longrightarrow> (\<exists>t. get_timestamp cal (ts e) = Inr t)"
  shows "\<exists>rows groups.
     songplays_table cal log_data song_df = Inr rows \<and>
     list_all2
       (\<lambda>e g. \<exists>t. get_timestamp cal (ts e) = Inr t \<and>
          g = (case matches e of
                 [] \<Rightarrow>
                   [\<lparr>sp_start_time = t, sp_user_id = userId e, sp_level = level e,
                     sp_song_id = None, sp_artist_id = None, sp_session_id = sessionId e,
                     sp_location = location e, sp_user_agent = userAgent e\<rparr>]
               | m # ms \<Rightarrow>
                   map (\<lambda>c. \<lparr>sp_start_time = t, sp_user_id = userId e, sp_level = level e,
                              sp_song_id = song_id c, sp_artist_id = artist_id c,
                              sp_session_id = sessionId e, sp_location = location e,
                              sp_user_agent = userAgent e\<rparr>) (m # ms)))
       plays groups \<and>
     mset (map songplays_select_row.truncate rows) = mset (concat groups) \<and>
     list_all2 (\<lambda>e g. length g = max 1 (length (matches e))) plays groups \<and>
     length rows = (\<Sum>e\<leftarrow>plays. max 1 (length (matches e))) \<and>
     length plays \<le> length rows \<and>
     ((\<forall>e\<in>set plays. length (matches e) \<le> 1) \<longrightarrow> length rows = length plays)"
proof -
  have plays: "plays = log_data_df log_data"
    by (simp only: plays_def log_data_df_explicit)
  have matches: "matches = (\<lambda>e. filter (join_on e) song_df)"
    by (simp only: matches_def join_on_explicit)
  from songplays_table_total [OF ok]
  obtain rows where rows: "songplays_table cal log_data song_df = Inr rows" by blast
  from fact_groups [OF rows] obtain groups where
    g: "list_all2
       (\<lambda>e g. \<exists>t. get_timestamp cal (ts e) = Inr t \<and>
          g = (case matches e of
                 [] \<Rightarrow>
                   [\<lparr>sp_start_time = t, sp_user_id = userId e, sp_level = level e,
                     sp_song_id = None, sp_artist_id = None, sp_session_id = sessionId e,
                     sp_location = location e, sp_user_agent = userAgent e\<rparr>]
               | m # ms \<Rightarrow>
                   map (\<lambda>c. \<lparr>sp_start_time = t, sp_user_id = userId e, sp_level = level e,
                              sp_song_id = song_id c, sp_artist_id = artist_id c,
                              sp_session_id = sessionId e, sp_location = location e,
                              sp_user_agent = userAgent e\<rparr>) (m # ms)))
       plays groups"
    and bag: "mset (map songplays_select_row.truncate rows) = mset (concat groups)"
    unfolding plays matches by blast
  from g have gl: "list_all2 (\<lambda>e g. length g = max 1 (length (matches e))) plays groups"
    by (rule list_all2_group_length)
  have len: "length rows = (\<Sum>e\<leftarrow>plays. max 1 (length (matches e)))"
    unfolding plays matches by (rule length_songplays_table [OF rows])
  have ge: "length plays \<le> length rows"
    unfolding len by (rule sum_max_one_ge_length)
  have one: "(\<forall>e\<in>set plays. length (matches e) \<le> 1) \<longrightarrow> length rows = length plays"
    unfolding len by (intro impI sum_max_one_eq_length)
  from rows g bag gl len ge one show ?thesis
    by (intro exI [of _ rows] exI [of _ groups] conjI)
qed

text \<open>A play with one match, a play with none and a Home event.\<close>

theorem songplays_rows_per_event_witness:
  "songplays_table epoch_calendar
     [log_event ''NextSong'' ''u1'' ''free'' 7 ''One'' ''Ann'',
      log_event ''Home'' ''u2'' ''free'' 3 ''One'' ''Ann'',
      log_event ''NextSong'' ''u3'' ''paid'' 5 ''Zero'' ''Nobody'']
     [song_record ''S1'' ''A1'' ''One'' ''Ann'' 1999] =
   Inr [\<lparr>sp_start_time = 5, sp_user_id = Some ''u3'', sp_level = Some ''paid'',
          sp_song_id = None, sp_artist_id = None, sp_session_id = Some 1,
          sp_location = None, sp_user_agent = None, sp_songplay_id = 1, sp_month = 0,
          sp_year = 0\<rparr>,
        \<lparr>sp_start_time = 7, sp_user_id = Some ''u1'', sp_level = Some ''free'',
          sp_song_id = Some ''S1'', sp_artist_id = Some ''A1'', sp_session_id = Some 1,
          sp_location = None, sp_user_agent = None, sp_songplay_id = 2, sp_month = 0,
          sp_year = 0\<rparr>] \<and>
   length (filter (\<lambda>e. page e = Some ''NextSong'')
     [log_event ''NextSong'' ''u1'' ''free'' 7 ''One'' ''Ann'',
      log_event ''Home'' ''u2'' ''free'' 3 ''One'' ''Ann'',
      log_event ''NextSong'' ''u3'' ''paid'' 5 ''Zero'' ''Nobody'']) = 2"
proof -
  let ?log = "[log_event ''NextSong'' ''u1'' ''free'' 7 ''One'' ''Ann'',
      log_event ''Home'' ''u2'' ''free'' 3 ''One'' ''Ann'',
      log_event ''NextSong'' ''u3'' ''paid'' 5 ''Zero'' ''Nobody'']"
  have h: "\<forall>e\<in>set ?log. page e = Some ''NextSong'' \<longrightarrow>
             (\<exists>t. get_timestamp epoch_calendar (ts e) = Inr t)"
    by (simp add: get_timestamp_def fixture_defs)
  from songplays_rows_per_event [OF h, of "[song_record ''S1'' ''A1'' ''One'' ''Ann'' 1999]"]
  obtain rows where "songplays_table epoch_calendar ?log
      [song_record ''S1'' ''A1'' ''One'' ''Ann'' 1999] = Inr rows"
    by blast
  then show ?thesis
    by (simp add: songplays_defs frame_defs fixture_defs)
qed

text \<open>
  C3. Over the \<open>N\<close> rows of the fact table, \<open>songplay_id\<close> takes the values \<open>1, \<dots>, N\<close>, each
  once, and a row with a smaller start time has a smaller \<open>songplay_id\<close>.
\<close>

theorem songplay_id_dense_and_ordered:
  assumes ok: "\<forall>e\<in>set log_data. page e = Some ''NextSong'' \<longrightarrow> (\<exists>t. get_timestamp cal (ts e) = Inr t)"
  shows "\<exists>rows. songplays_table cal log_data song_df = Inr rows \<and>
           map sp_songplay_id rows = [1..int (length rows)] \<and>
           (\<forall>r\<in>set rows. \<forall>r'\<in>set rows.
              sp_start_time r < sp_start_time r' \<longrightarrow> sp_songplay_id r < sp_songplay_id r')"
proof -
  from songplays_table_total [OF ok]
  obtain rows where rows: "songplays_table cal log_data song_df = Inr rows" by blast
  then obtain df where df: "log_data_df_datetime cal log_data = Inr df" and
    eq: "rows = map (add_songplay_columns cal)
                  (row_number_over sp_start_time (map songplays_select (join_left join_on df song_df)))"
    by (rule songplays_table_Inr)
  have len: "length rows = length (join_left join_on df song_df)"
    by (simp add: eq length_row_number_over)
  have ids: "map sp_songplay_id rows = [1..int (length rows)]"
    unfolding len unfolding eq by (simp only: songplays_start_time_id length_map)
  have srt: "sorted (map sp_start_time rows)"
    unfolding eq by (simp only: songplays_start_time_id sorted_sort_key)
  from srt ids have "\<forall>r\<in>set rows. \<forall>r'\<in>set rows.
      sp_start_time r < sp_start_time r' \<longrightarrow> sp_songplay_id r < sp_songplay_id r'"
    by (blast intro: sorted_ids_order)
  with rows ids show ?thesis by blast
qed

text \<open>Four plays, two of them in the same millisecond.\<close>

theorem songplay_id_dense_and_ordered_witness:
  "map_sum id (map (\<lambda>r. (sp_start_time r, sp_user_id r, sp_songplay_id r)))
     (songplays_table epoch_calendar
        [log_event ''NextSong'' ''u1'' ''free'' 9 ''One'' ''Ann'',
         log_event ''NextSong'' ''u2'' ''free'' 4 ''One'' ''Ann'',
         log_event ''NextSong'' ''u3'' ''paid'' 9 ''One'' ''Ann'',
         log_event ''NextSong'' ''u4'' ''paid'' 6 ''One'' ''Ann'']
        ([] :: unit SongRecord list)) =
   Inr [(4, Some ''u2'', 1), (6, Some ''u4'', 2), (9, Some ''u1'', 3), (9, Some ''u3'', 4)]"
proof -
  let ?log = "[log_event ''NextSong'' ''u1'' ''free'' 9 ''One'' ''Ann'',
         log_event ''NextSong'' ''u2'' ''free'' 4 ''One'' ''Ann'',
         log_event ''NextSong'' ''u3'' ''paid'' 9 ''One'' ''Ann'',
         log_event ''NextSong'' ''u4'' ''paid'' 6 ''One'' ''Ann'']"
  have h: "\<forall>e\<in>set ?log. page e = Some ''NextSong'' \<longrightarrow>
             (\<exists>t. get_timestamp epoch_calendar (ts e) = Inr t)"
    by (simp add: get_timestamp_def fixture_defs)
  from songplay_id_dense_and_ordered [OF h, of "[] :: unit SongRecord list"]
  show ?thesis
    by (simp add: songplays_defs frame_defs fixture_defs)
qed

text \<open>
  C4. The fact table is the left outer join of the NextSong events and the catalog on
  equality of the strings \<open>(song, artist)\<close> and \<open>(title, artist_name)\<close>. A NextSong event
  and a catalog row with the same song title and the same artist name give a fact row
  with the event's columns and the \<open>song_id\<close> and \<open>artist_id\<close> of the catalog row; a
  NextSong event that no catalog row matches gives a fact row with the event's columns
  and null \<open>song_id\<close> and \<open>artist_id\<close>; and every fact row is of one of these two kinds.
\<close>

theorem songplays_left_outer_join:
  fixes song_df :: "'f SongRecord list"
  assumes ok: "\<forall>e\<in>set log_data. page e = Some ''NextSong'' \<longrightarrow> (\<exists>t. get_timestamp cal (ts e) = Inr t)"
  shows "\<exists>rows. songplays_table cal log_data song_df = Inr rows \<and>
    (\<forall>e\<in>set log_data. page e = Some ''NextSong'' \<longrightarrow>
       (\<forall>c\<in>set song_df.
          (\<exists>s a. song e = Some s \<and> title c = Some s \<and> artist e = Some a \<and> artist_name c = Some a) \<longrightarrow>
          (\<exists>r\<in>set rows.
             get_timestamp cal (ts e) = Inr (sp_start_time r) \<and> sp_user_id r = userId e \<and>
             sp_level r = level e \<and> sp_session_id r = sessionId e \<and>
             sp_location r = location e \<and> sp_user_agent r = userAgent e \<and>
             sp_song_id r = song_id c \<and> sp_artist_id r = artist_id c)) \<and>
       ((\<forall>c\<in>set song_df.
           \<not> (\<exists>s a. song e = Some s \<and> title c = Some s \<and> artist e = Some a \<and> artist_name c = Some a)) \<longrightarrow>
          (\<exists>r\<in>set rows.
             get_timestamp cal (ts e) = Inr (sp_start_time r) \<and> sp_user_id r = userId e \<and>
             sp_level r = level e \<and> sp_session_id r = sessionId e \<and>
             sp_location r = location e \<and> sp_user_agent r = userAgent e \<and>
             sp_song_id r = None \<and> sp_artist_id r = None))) \<and>
    (\<forall>r\<in>set rows. \<exists>e\<in>set log_data.
       page e = Some ''NextSong'' \<and>
       get_timestamp cal (ts e) = Inr (sp_start_time r) \<and> sp_user_id r = userId e \<and>
       sp_level r = level e \<and> sp_session_id r = sessionId e \<and>
       sp_location r = location e \<and> sp_user_agent r = userAgent e \<and>
       ((\<exists>c\<in>set song_df.
           (\<exists>s a. song e = Some s \<and> title c = Some s \<and> artist e = Some a \<and> artist_name c = Some a) \<and>
           sp_song_id r = song_id c \<and> sp_artist_id r = artist_id c) \<or>
        ((\<forall>c\<in>set song_df.
            \<not> (\<exists>s a. song e = Some s \<and> title c = Some s \<and> artist e = Some a \<and> artist_name c = Some a)) \<and>
         sp_song_id r = None \<and> sp_artist_id r = None)))"
proof -
  from songplays_table_total [OF ok]
  obtain rows where rows: "songplays_table cal log_data song_df = Inr rows" by blast
  have matched: "\<exists>r\<in>set rows.
             get_timestamp cal (ts e) = Inr (sp_start_time r) \<and> sp_user_id r = userId e \<and>
             sp_level r = level e \<and> sp_session_id r = sessionId e \<and>
             sp_location r = location e \<and> sp_user_agent r = userAgent e \<and>
             sp_song_id r = song_id c \<and> sp_artist_id r = artist_id c"
    if e: "e \<in> set log_data" "page e = Some ''NextSong''" and c: "c \<in> set song_df"
      and m: "\<exists>s a. song e = Some s \<and> title c = Some s \<and> artist e = Some a \<and> artist_name c = Some a"
    for e c
  proof -
    from ok e obtain t where t: "get_timestamp cal (ts e) = Inr t" by blast
    from m have "join_on e c" by (simp only: join_on_iff)
    with c have "\<exists>n. add_songplay_columns cal
        (songplays_select (add_datetime (add_timestamp e t) t, Some c), n) \<in> set rows"
      by (intro songplays_row_of_pair [OF rows e t]) blast
    then obtain n where
      r: "add_songplay_columns cal (songplays_select (add_datetime (add_timestamp e t) t, Some c), n) \<in> set rows"
      by blast
    from songplay_row_fields [OF refl, of cal e t "Some c" n] t r show ?thesis
      by (intro bexI [OF _ r]) simp
  qed
  have unmatched: "\<exists>r\<in>set rows.
             get_timestamp cal (ts e) = Inr (sp_start_time r) \<and> sp_user_id r = userId e \<and>
             sp_level r = level e \<and> sp_session_id r = sessionId e \<and>
             sp_location r = location e \<and> sp_user_agent r = userAgent e \<and>
             sp_song_id r = None \<and> sp_artist_id r = None"
    if e: "e \<in> set log_data" "page e = Some ''NextSong''"
      and m: "\<forall>c\<in>set song_df.
           \<not> (\<exists>s a. song e = Some s \<and> title c = Some s \<and> artist e = Some a \<and> artist_name c = Some a)"
    for e
  proof -
    from ok e obtain t where t: "get_timestamp cal (ts e) = Inr t" by blast
    from m have "\<forall>c\<in>set song_df. \<not> join_on e c" by (simp only: join_on_iff)
    then have "\<exists>n. add_songplay_columns cal
        (songplays_select (add_datetime (add_timestamp e t) t, None :: 'f SongRecord option), n) \<in> set rows"
      by (intro songplays_row_of_pair [OF rows e t]) blast
    then obtain n where
      r: "add_songplay_columns cal (songplays_select (add_datetime (add_timestamp e t) t, None :: 'f SongRecord option), n) \<in> set rows"
      by blast
    from songplay_row_fields [OF refl, of cal e t "None :: 'f SongRecord option" n] t r show ?thesis
      by (intro bexI [OF _ r]) simp
  qed
  have origin: "\<exists>e\<in>set log_data.
       page e = Some ''NextSong'' \<and>
       get_timestamp cal (ts e) = Inr (sp_start_time r) \<and> sp_user_id r = userId e \<and>
       sp_level r = level e \<and> sp_session_id r = sessionId e \<and>
       sp_location r = location e \<and> sp_user_agent r = userAgent e \<and>
       ((\<exists>c\<in>set song_df.
           (\<exists>s a. song e = Some s \<and> title c = Some s \<and> artist e = Some a \<and> artist_name c = Some a) \<and>
           sp_song_id r = song_id c \<and> sp_artist_id r = artist_id c) \<or>
        ((\<forall>c\<in>set song_df.
            \<not> (\<exists>s a. song e = Some s \<and> title c = Some s \<and> artist e = Some a \<and> artist_name c = Some a)) \<and>
         sp_song_id r = None \<and> sp_artist_id r = None))"
    if r: "r \<in> set rows" for r
  proof -
    from songplays_row_origin [OF rows r]
    obtain e t c n where e: "e \<in> set log_data" "page e = Some ''NextSong''"
      and t: "get_timestamp cal (ts e) = Inr t"
      and c: "(c = None \<and> (\<forall>c'\<in>set song_df. \<not> join_on e c')) \<or>
              (\<exists>c'. c = Some c' \<and> c' \<in> set song_df \<and> join_on e c')"
      and req: "r = add_songplay_columns cal
                 (songplays_select (add_datetime (add_timestamp e t) t, c), n)"
      by blast
    note f = songplay_row_fields [OF req]
    from c have "(\<exists>c'\<in>set song_df. join_on e c' \<and>
                   sp_song_id r = song_id c' \<and> sp_artist_id r = artist_id c') \<or>
                 ((\<forall>c'\<in>set song_df. \<not> join_on e c') \<and>
                   sp_song_id r = None \<and> sp_artist_id r = None)"
      using f by auto
    then have "(\<exists>c\<in>set song_df.
           (\<exists>s a. song e = Some s \<and> title c = Some s \<and> artist e = Some a \<and> artist_name c = Some a) \<and>
           sp_song_id r = song_id c \<and> sp_artist_id r = artist_id c) \<or>
        ((\<forall>c\<in>set song_df.
            \<not> (\<exists>s a. song e = Some s \<and> title c = Some s \<and> artist e = Some a \<and> artist_name c = Some a)) \<and>
         sp_song_id r = None \<and> sp_artist_id r = None)"
      by (simp only: join_on_iff)
    with e t f show ?thesis by (intro bexI [of _ e]) simp_all
  qed
  from rows matched unmatched origin show ?thesis by blast
qed

text \<open>A play that matches the catalog row and a play whose title differs in case.\<close>

theorem songplays_left_outer_join_witness:
  "songplays_table epoch_calendar
     [log_event ''NextSong'' ''u1'' ''free'' 20 ''Test Song'' ''Test Artist'',
      log_event ''NextSong'' ''u2'' ''paid'' 30 ''test song'' ''Test Artist'']
     [song_record ''S1'' ''A1'' ''Test Song'' ''Test Artist'' 1999] =
   Inr [\<lparr>sp_start_time = 20, sp_user_id = Some ''u1'', sp_level = Some ''free'',
          sp_song_id = Some ''S1'', sp_artist_id = Some ''A1'', sp_session_id = Some 1,
          sp_location = None, sp_user_agent = None, sp_songplay_id = 1, sp_month = 0,
          sp_year = 0\<rparr>,
        \<lparr>sp_start_time = 30, sp_user_id = Some ''u2'', sp_level = Some ''paid'',
          sp_song_id = None, sp_artist_id = None, sp_session_id = Some 1,
          sp_location = None, sp_user_agent = None, sp_songplay_id = 2, sp_month = 0,
          sp_year = 0\<rparr>]"
proof -
  let ?log = "[log_event ''NextSong'' ''u1'' ''free'' 20 ''Test Song'' ''Test Artist'',
      log_event ''NextSong'' ''u2'' ''paid'' 30 ''test song'' ''Test Artist'']"
  have h: "\<forall>e\<in>set ?log. page e = Some ''NextSong'' \<longrightarrow>
             (\<exists>t. get_timestamp epoch_calendar (ts e) = Inr t)"
    by (simp add: get_timestamp_def fixture_defs)
  from songplays_left_outer_join
         [OF h, of "[song_record ''S1'' ''A1'' ''Test Song'' ''Test Artist'' 1999]"]
  show ?thesis
    by (simp add: songplays_defs frame_defs fixture_defs)
qed

section \<open>The tables in the storage\<close>

lemma time_table_total:
  assumes "\<forall>e\<in>set log_data. page e = Some ''NextSong'' \<longrightarrow> (\<exists>t. get_timestamp cal (ts e) = Inr t)"
  shows "\<exists>rows. time_table cal log_data = Inr rows"
proof -
  from assms have "\<forall>e\<in>set (log_data_df log_data). \<exists>t. get_timestamp cal (ts e) = Inr t"
    by (simp add: set_log_data_df)
  from log_data_df_datetime_total [OF this]
  obtain df where "log_data_df_datetime cal log_data = Inr df" by auto
  then show ?thesis by (simp add: time_table_def)
qed

lemma main_eq:
  assumes tt: "time_table cal (log_json input_data) = Inr tt"
    and spt: "songplays_table cal (log_json input_data) (song_json input_data) = Inr spt"
  shows "main cal input_data s =
     Inr (s(output_data @ ''songs.parquet'' \<mapsto>
              \<lparr>partition_by = [''year'', ''artist_id''],
               content = Songs (songs_table (song_json input_data))\<rparr>,
            output_data @ ''artists.parquet'' \<mapsto>
              \<lparr>partition_by = [], content = Artists (artists_table (song_json input_data))\<rparr>,
            output_data @ ''users.parquet'' \<mapsto>
              \<lparr>partition_by = [], content = Users (users_table (log_json input_data))\<rparr>,
            output_data @ ''time.parquet'' \<mapsto>
              \<lparr>partition_by = [''year'', ''month''], content = Time tt\<rparr>,
            output_data @ ''songplays.parquet'' \<mapsto>
              \<lparr>partition_by = [''year'', ''month''], content = Songplays spt\<rparr>))"
  by (simp add: main_def process_log_data_def process_song_data_def parquet_overwrite_def
      Let_def tt spt)

lemma main_eq_paths:
  assumes tt: "time_table cal (log_json input_data) = Inr tt"
    and spt: "songplays_table cal (log_json input_data) (song_json input_data) = Inr spt"
    and m: "main cal input_data s = Inr s'"
  shows "s' (output_data @ ''songs.parquet'') =
             Some \<lparr>partition_by = [''year'', ''artist_id''],
                   content = Songs (songs_table (song_json input_data))\<rparr>"
    and "s' (output_data @ ''artists.parquet'') =
             Some \<lparr>partition_by = [], content = Artists (artists_table (song_json input_data))\<rparr>"
    and "s' (output_data @ ''users.parquet'') =
             Some \<lparr>partition_by = [], content = Users (users_table (log_json input_data))\<rparr>"
    and "s' (output_data @ ''time.parquet'') =
             Some \<lparr>partition_by = [''year'', ''month''], content = Time tt\<rparr>"
    and "s' (output_data @ ''songplays.parquet'') =
             Some \<lparr>partition_by = [''year'', ''month''], content = Songplays spt\<rparr>"
    and "\<forall>p. p \<notin> {output_data @ ''songs.parquet'', output_data @ ''artists.parquet'',
                      output_data @ ''users.parquet'', output_data @ ''time.parquet'',
                      output_data @ ''songplays.parquet''} \<longrightarrow> s' p = s p"
  using m unfolding main_eq [OF tt spt] by auto

text \<open>
  C8. Every table is written by a full overwrite: after a run, each of the five
  destinations holds the table built in this run and nothing that was there before
  (the right-hand sides do not mention the storage the run started from), and every
  other path is untouched. The partition columns are \<open>year, artist_id\<close> for \<open>songs\<close>,
  \<open>year, month\<close> for \<open>time\<close> and \<open>year, month\<close> for \<open>songplays\<close>; \<open>artists\<close> and \<open>users\<close> are
  written unpartitioned.
\<close>

theorem tables_overwritten_with_partitions:
  assumes ok: "\<forall>e\<in>set (log_json input_data).
                 page e = Some ''NextSong'' \<longrightarrow> (\<exists>t. get_timestamp cal (ts e) = Inr t)"
  shows "\<exists>s' tt spt.
           main cal input_data s = Inr s' \<and>
           time_table cal (log_json input_data) = Inr tt \<and>
           songplays_table cal (log_json input_data) (song_json input_data) = Inr spt \<and>
           s' (output_data @ ''songs.parquet'') =
             Some \<lparr>partition_by = [''year'', ''artist_id''],
                   content = Songs (songs_table (song_json input_data))\<rparr> \<and>
           s' (output_data @ ''artists.parquet'') =
             Some \<lparr>partition_by = [], content = Artists (artists_table (song_json input_data))\<rparr> \<and>
           s' (output_data @ ''users.parquet'') =
             Some \<lparr>partition_by = [], content = Users (users_table (log_json input_data))\<rparr> \<and>
           s' (output_data @ ''time.parquet'') =
             Some \<lparr>partition_by = [''year'', ''month''], content = Time tt\<rparr> \<and>
           s' (output_data @ ''songplays.parquet'') =
             Some \<lparr>partition_by = [''year'', ''month''], content = Songplays spt\<rparr> \<and>
           (\<forall>p. p \<notin> {output_data @ ''songs.parquet'', output_data @ ''artists.parquet'',
                      output_data @ ''users.parquet'', output_data @ ''time.parquet'',
                      output_data @ ''songplays.parquet''} \<longrightarrow> s' p = s p)"
proof -
  from time_table_total [OF ok]
  obtain tt where tt: "time_table cal (log_json input_data) = Inr tt" ..
  from songplays_table_total [OF ok]
  obtain spt where
    spt: "songplays_table cal (log_json input_data) (song_json input_data) = Inr spt" ..
  from main_eq [OF tt spt, of s]
  obtain s' where m: "main cal input_data s = Inr s'" ..
  note p = main_eq_paths [OF tt spt m]
  from m tt spt p show ?thesis
    by (intro exI [of _ s'] exI [of _ tt] exI [of _ spt] conjI)
qed

text \<open>A run that finds a stale dataset where \<open>songs\<close> is to be written.\<close>

theorem tables_overwritten_with_partitions_witness:
  "(case main epoch_calendar
           \<lparr>song_json = [song_record ''S1'' ''A1'' ''One'' ''Ann'' 1999],
            log_json = [log_event ''NextSong'' ''u1'' ''free'' 5 ''One'' ''Ann'']\<rparr>
           [output_data @ ''songs.parquet'' \<mapsto> \<lparr>partition_by = [], content = Users []\<rparr>] of
      Inl e \<Rightarrow> False
    | Inr s' \<Rightarrow>
        s' (output_data @ ''songs.parquet'') =
          Some \<lparr>partition_by = [''year'', ''artist_id''],
                content = Songs [\<lparr>songs_song_id = Some ''S1'', songs_title = Some ''One'',
                                  songs_artist_id = Some ''A1'', songs_duration = None,
                                  songs_year = Some 1999\<rparr>]\<rparr> \<and>
        map_option partition_by (s' (output_data @ ''time.parquet'')) = Some [''year'', ''month''] \<and>
        map_option partition_by (s' (output_data @ ''songplays.parquet'')) =
          Some [''year'', ''month''] \<and>
        s' ''elsewhere'' = None)"
proof -
  let ?inp = "\<lparr>song_json = [song_record ''S1'' ''A1'' ''One'' ''Ann'' 1999],
            log_json = [log_event ''NextSong'' ''u1'' ''free'' 5 ''One'' ''Ann'']\<rparr>"
  have h: "\<forall>e\<in>set (log_json ?inp). page e = Some ''NextSong'' \<longrightarrow>
             (\<exists>t. get_timestamp epoch_calendar (ts e) = Inr t)"
    by (simp add: get_timestamp_def fixture_defs)
  from tables_overwritten_with_partitions
         [OF h, of "[output_data @ ''songs.parquet'' \<mapsto> \<lparr>partition_by = [], content = Users []\<rparr>]"]
  obtain s' tt spt where
    m: "main epoch_calendar ?inp
          [output_data @ ''songs.parquet'' \<mapsto> \<lparr>partition_by = [], content = Users []\<rparr>] = Inr s'"
    and songs: "s' (output_data @ ''songs.parquet'') =
             Some \<lparr>partition_by = [''year'', ''artist_id''],
                   content = Songs (songs_table (song_json ?inp))\<rparr>"
    and time: "s' (output_data @ ''time.parquet'') =
             Some \<lparr>partition_by = [''year'', ''month''], content = Time tt\<rparr>"
    and plays: "s' (output_data @ ''songplays.parquet'') =
             Some \<lparr>partition_by = [''year'', ''month''], content = Songplays spt\<rparr>"
    and frame: "\<forall>p. p \<notin> {output_data @ ''songs.parquet'', output_data @ ''artists.parquet'',
                      output_data @ ''users.parquet'', output_data @ ''time.parquet'',
                      output_data @ ''songplays.parquet''} \<longrightarrow>
                  s' p = [output_data @ ''songs.parquet'' \<mapsto> \<lparr>partition_by = [], content = Users []\<rparr>] p"
    by blast
  have st: "songs_table (song_json ?inp) =
      [\<lparr>songs_song_id = Some ''S1'', songs_title = Some ''One'', songs_artist_id = Some ''A1'',
        songs_duration = None, songs_year = Some 1999\<rparr>]"
    by (simp add: songs_table_def songs_select_def fixture_defs)
  have "s' ''elsewhere'' = None"
    using frame [rule_format, of "''elsewhere''"] by (simp add: output_data_def)
  with m songs time plays st show ?thesis by simp
qed

end
